theory Spec2Isabelle
  imports Main
begin

section \<open>The OAuth redirect handshake of nk-auth-handler.ts\<close>

text \<open>
  The module \<^verbatim>\<open>src/nk-auth-handler.ts\<close> keeps the state of an OAuth redirect in the
  browser's \<^verbatim>\<open>localStorage\<close>: \<^verbatim>\<open>handleNkLoginRequest\<close> stores a record under a
  random key and navigates away, \<^verbatim>\<open>handleNkLoginReturn\<close> reads the record back when the
  provider redirects to the application, and \<^verbatim>\<open>CleanupLocalStorage\<close> removes every
  stored record of that shape.

  The functions are embedded with the browser made explicit: the storage is a value that
  is passed in and returned, the clock and the query string are arguments, and an
  exception is a value of type \<open>error\<close>.
\<close>

subsection \<open>Values, stored text and errors\<close>

text \<open>
  What \<^verbatim>\<open>JSON.parse\<close> can return. Numbers are the integers: the only number the module
  computes with is a time stamp in milliseconds.
\<close>

datatype json =
    JNull
  | JBool bool
  | JNum int
  | JStr string
  | JArr "json list"
  | JObj "(string \<times> json) list"

text \<open>
  The module never looks at the characters of a stored string: it hands the string to
  \<^verbatim>\<open>JSON.parse\<close> and works with the outcome. A stored string is therefore represented by
  what \<^verbatim>\<open>JSON.parse\<close> makes of it: \<open>JsonText j\<close> is a JSON text that denotes \<open>j\<close>, and
  \<open>PlainText s\<close> is a string \<open>s\<close> that is no JSON text (\<^verbatim>\<open>dark\<close>, say).
\<close>

datatype item = JsonText json | PlainText string

text \<open>
  The exceptions: the three \<^verbatim>\<open>new Error(message)\<close> of \<^verbatim>\<open>handleNkLoginReturn\<close>, the
  \<^verbatim>\<open>SyntaxError\<close> of \<^verbatim>\<open>JSON.parse\<close> and the \<^verbatim>\<open>TypeError\<close> of a property read on
  \<^verbatim>\<open>null\<close>.
\<close>

datatype error = Error string | SyntaxError | TypeError

abbreviation MissingParameters :: error where
  "MissingParameters \<equiv> Error ''Redirect missing code/state!''"

abbreviation UnknownOrExpiredToken :: error where
  "UnknownOrExpiredToken \<equiv> Error ''Missing state in local storage!''"

abbreviation HandshakeExpired :: error where
  "HandshakeExpired \<equiv> Error ''Redirect attempt expired!''"

definition JSON_parse :: "item \<Rightarrow> error + json" where
  "JSON_parse t = (case t of JsonText j \<Rightarrow> Inr j | PlainText s \<Rightarrow> Inl SyntaxError)"

text \<open>
  \<^verbatim>\<open>JSON.parse(x)\<close> where \<open>x\<close> may be \<^verbatim>\<open>null\<close>: the argument is converted to the string
  \<^verbatim>\<open>"null"\<close>, which denotes the value \<^verbatim>\<open>null\<close>.
\<close>

definition JSON_parse_nullable :: "item option \<Rightarrow> error + json" where
  "JSON_parse_nullable x = (case x of None \<Rightarrow> Inr JNull | Some t \<Rightarrow> JSON_parse t)"

text \<open>
  Reading the property \<open>name\<close> of a parsed value, for a name that no built-in prototype
  defines (\<^verbatim>\<open>state\<close> and \<^verbatim>\<open>expiresOn\<close> are the two names read). \<open>None\<close> is
  \<^verbatim>\<open>undefined\<close>. On \<^verbatim>\<open>null\<close> the read throws; on a number, a string, a boolean or an
  array there is no such property; on an object the property is there when the JSON
  text had the key (its value may be \<^verbatim>\<open>null\<close>, which is not \<^verbatim>\<open>undefined\<close>).
\<close>

fun get_property :: "json \<Rightarrow> string \<Rightarrow> error + json option" where
  "get_property JNull name = Inl TypeError"
| "get_property (JObj members) name = Inr (map_of members name)"
| "get_property _ name = Inr None"

subsection \<open>localStorage\<close>

text \<open>
  The storage is the list of its entries in the order of \<^verbatim>\<open>localStorage.key(i)\<close>. A key
  occurs once (\<open>wf_storage\<close>). \<^verbatim>\<open>setItem\<close> overwrites the entry of a known key
  where it stands and appends a new key; \<^verbatim>\<open>removeItem\<close> keeps the order of the
  other entries. The order of the keys is the browser's own; that a removal keeps the
  order of the entries that stay is what the loop of \<^verbatim>\<open>CleanupLocalStorage\<close> relies on
  when it steps its index back, and the model has it so. The quota of the storage is
  not modelled: \<^verbatim>\<open>setItem\<close> always stores.
\<close>

type_synonym storage = "(string \<times> item) list"

definition wf_storage :: "storage \<Rightarrow> bool" where
  "wf_storage ls = distinct (map fst ls)"

definition getItem :: "storage \<Rightarrow> string \<Rightarrow> item option" where
  "getItem ls k = map_of ls k"

fun setItem :: "storage \<Rightarrow> string \<Rightarrow> item \<Rightarrow> storage" where
  "setItem [] k v = [(k, v)]"
| "setItem ((k', v') # ls) k v =
     (if k' = k then (k, v) # ls else (k', v') # setItem ls k v)"

definition removeItem :: "storage \<Rightarrow> string \<Rightarrow> storage" where
  "removeItem ls k = filter (\<lambda>entry. fst entry \<noteq> k) ls"

definition key :: "storage \<Rightarrow> int \<Rightarrow> string option" where
  "key ls i = (if 0 \<le> i \<and> i < int (length ls) then Some (fst (ls ! nat i)) else None)"

text \<open>
  A key that is \<^verbatim>\<open>null\<close> is converted to the string \<^verbatim>\<open>"null"\<close> by \<^verbatim>\<open>getItem\<close> and
  \<^verbatim>\<open>removeItem\<close>.
\<close>

definition key_string :: "string option \<Rightarrow> string" where
  "key_string k = (case k of None \<Rightarrow> ''null'' | Some s \<Rightarrow> s)"

subsection \<open>isRedirectData and CleanupLocalStorage\<close>

text \<open>
  \<^verbatim>\<open>redirectData.state !== undefined && redirectData.expiresOn !== undefined\<close>: the
  second property is read only when the first is there.
\<close>

definition isRedirectData :: "json \<Rightarrow> error + bool" where
  "isRedirectData data =
     (case get_property data ''state'' of
        Inl e \<Rightarrow> Inl e
      | Inr s \<Rightarrow>
          if s \<noteq> None
          then (case get_property data ''expiresOn'' of
                  Inl e \<Rightarrow> Inl e
                | Inr x \<Rightarrow> Inr (x \<noteq> None))
          else Inr False)"

text \<open>
  The loop of \<^verbatim>\<open>CleanupLocalStorage\<close>, from the index \<open>i\<close> on. The result is the
  exception that left the loop, if any, and the storage as it is then. After a removal
  the source decrements \<open>i\<close> and the loop header increments it again.
\<close>

function cleanup_loop :: "int \<Rightarrow> storage \<Rightarrow> (error + unit) \<times> storage" where
  "cleanup_loop i ls =
     (if i < int (length ls)
      then
        let storageKey = key_string (key ls i) in
        (case JSON_parse_nullable (getItem ls storageKey) of
           Inl e \<Rightarrow> (Inl e, ls)
         | Inr storageItem \<Rightarrow>
             (case isRedirectData storageItem of
                Inl e \<Rightarrow> (Inl e, ls)
              | Inr True \<Rightarrow> cleanup_loop (i - 1 + 1) (removeItem ls storageKey)
              | Inr False \<Rightarrow> cleanup_loop (i + 1) ls))
      else (Inr (), ls))"
  by pat_completeness auto

lemma removeItem_shorter:
  assumes "getItem ls k = Some v"
  shows "length (removeItem ls k) < length ls"
proof -
  from assms have "(k, v) \<in> set ls"
    by (simp add: getItem_def map_of_SomeD)
  then show ?thesis
    unfolding removeItem_def by (rule length_filter_less) simp
qed

lemma isRedirectData_null: "isRedirectData JNull = Inl TypeError"
  by (simp add: isRedirectData_def)

termination cleanup_loop
proof (relation "measure (\<lambda>(i, ls). nat (int (length ls) - i))", goal_cases)
  case 1
  show ?case by simp
next
  case (2 i ls storageKey storageItem b)
  then obtain v where "getItem ls storageKey = Some v"
    by (cases "getItem ls storageKey")
       (auto simp: JSON_parse_nullable_def isRedirectData_null)
  then have "length (removeItem ls storageKey) < length ls"
    by (rule removeItem_shorter)
  with 2 show ?case by simp
next
  case 3
  then show ?case by simp
qed

declare cleanup_loop.simps [simp del]

definition CleanupLocalStorage :: "storage \<Rightarrow> (error + unit) \<times> storage" where
  "CleanupLocalStorage ls = cleanup_loop 0 ls"

subsection \<open>JSON.stringify\<close>

text \<open>
  The values a caller can hand over as application state: besides the JSON values,
  \<^verbatim>\<open>undefined\<close> and functions, which \<^verbatim>\<open>JSON.stringify\<close> does not write. An object is
  the list of its own properties, in the order in which they are enumerated. These are the values that \<^verbatim>\<open>JSON.stringify\<close> writes
  without throwing and without calling into the value: there is no cycle, no
  \<^verbatim>\<open>BigInt\<close> and no \<^verbatim>\<open>toJSON\<close> method among them.
\<close>

datatype jsval =
    VUndefined
  | VFunction
  | VNull
  | VBool bool
  | VNum int
  | VStr string
  | VArr "jsval list"
  | VObj "(string \<times> jsval) list"

text \<open>
  The JSON value that the text written by \<^verbatim>\<open>JSON.stringify\<close> denotes; \<open>None\<close> where
  \<^verbatim>\<open>JSON.stringify\<close> returns \<^verbatim>\<open>undefined\<close>. A property whose value is \<^verbatim>\<open>undefined\<close> or
  a function is left out of an object and written as \<^verbatim>\<open>null\<close> in an array.
\<close>

definition array_element :: "json option \<Rightarrow> json" where
  "array_element x = (case x of None \<Rightarrow> JNull | Some j \<Rightarrow> j)"

definition object_member :: "string \<times> json option \<Rightarrow> (string \<times> json) list" where
  "object_member m = (case snd m of None \<Rightarrow> [] | Some j \<Rightarrow> [(fst m, j)])"

primrec serialize :: "jsval \<Rightarrow> json option" where
  "serialize VUndefined = None"
| "serialize VFunction = None"
| "serialize VNull = Some JNull"
| "serialize (VBool b) = Some (JBool b)"
| "serialize (VNum n) = Some (JNum n)"
| "serialize (VStr s) = Some (JStr s)"
| "serialize (VArr vs) = Some (JArr (map array_element (map serialize vs)))"
| "serialize (VObj ms) =
     Some (JObj (concat (map object_member (map (map_prod id serialize) ms))))"

definition JSON_stringify :: "jsval \<Rightarrow> item option" where
  "JSON_stringify v = map_option JsonText (serialize v)"

text \<open>
  \<^verbatim>\<open>setItem\<close> converts its second argument to a string: \<^verbatim>\<open>undefined\<close> becomes the
  string \<^verbatim>\<open>undefined\<close>, which is no JSON text.
\<close>

definition to_item :: "item option \<Rightarrow> item" where
  "to_item x = (case x of None \<Rightarrow> PlainText ''undefined'' | Some t \<Rightarrow> t)"

text \<open>The parsed values as values of the program.\<close>

primrec of_json :: "json \<Rightarrow> jsval" where
  "of_json JNull = VNull"
| "of_json (JBool b) = VBool b"
| "of_json (JNum n) = VNum n"
| "of_json (JStr s) = VStr s"
| "of_json (JArr js) = VArr (map of_json js)"
| "of_json (JObj ms) = VObj (map (map_prod id of_json) ms)"

subsection \<open>nanoid and URLSearchParams\<close>

text \<open>
  \<^verbatim>\<open>nanoid(n)\<close> of the package \<^verbatim>\<open>nanoid\<close>: a string of \<open>n\<close> symbols of its URL-safe
  alphabet of 64 symbols, each chosen by the low six bits of one byte of
  \<^verbatim>\<open>crypto.getRandomValues\<close>. The bytes are the argument \<open>random\<close>.
\<close>

definition urlAlphabet :: string where
  "urlAlphabet = ''useandom-26T198340PX75pxJACKVERYMINDBUSHWOLF_GQZbfghjklqvwyzrict''"

definition nanoid :: "nat \<Rightarrow> (nat \<Rightarrow> nat) \<Rightarrow> string" where
  "nanoid n random = map (\<lambda>i. urlAlphabet ! (random i mod 64)) [0..<n]"

text \<open>
  \<^verbatim>\<open>URLSearchParams\<close>: the parameters are a list of names and values; \<^verbatim>\<open>get\<close> returns
  the first value of a name, or \<^verbatim>\<open>null\<close>; \<^verbatim>\<open>toString\<close> is the serializer of
  \<^verbatim>\<open>application/x-www-form-urlencoded\<close>, which keeps the ASCII letters and digits and
  \<^verbatim>\<open>* - . _\<close>, writes a space as \<^verbatim>\<open>+\<close> and every other byte as \<^verbatim>\<open>%XX\<close>.
\<close>

definition URLSearchParams_get :: "(string \<times> string) list \<Rightarrow> string \<Rightarrow> string option" where
  "URLSearchParams_get urlParams name = map_of urlParams name"

definition unreserved :: "char \<Rightarrow> bool" where
  "unreserved c =
     (let n = (of_char c :: nat)
      in (48 \<le> n \<and> n \<le> 57) \<or> (65 \<le> n \<and> n \<le> 90) \<or> (97 \<le> n \<and> n \<le> 122)
         \<or> n = 42 \<or> n = 45 \<or> n = 46 \<or> n = 95)"

definition hex_digit :: "nat \<Rightarrow> char" where
  "hex_digit d = (if d < 10 then char_of (48 + d) else char_of (55 + d))"

definition encode_char :: "char \<Rightarrow> string" where
  "encode_char c =
     (if unreserved c then [c]
      else if c = CHR '' '' then ''+''
      else [CHR ''%'', hex_digit ((of_char c :: nat) div 16),
            hex_digit ((of_char c :: nat) mod 16)])"

definition encode :: "string \<Rightarrow> string" where
  "encode s = concat (map encode_char s)"

fun URLSearchParams_toString :: "(string \<times> string) list \<Rightarrow> string" where
  "URLSearchParams_toString [] = []"
| "URLSearchParams_toString [(name, v)] = encode name @ ''='' @ encode v"
| "URLSearchParams_toString ((name, v) # rest) =
     encode name @ ''='' @ encode v @ ''&'' @ URLSearchParams_toString rest"

subsection \<open>handleNkLoginRequest\<close>

definition NkAuthRedirectPath :: string where
  "NkAuthRedirectPath = ''/nk-auth-redirect''"

text \<open>
  The browser is in the arguments: \<open>random\<close> are the bytes \<^verbatim>\<open>nanoid\<close> draws, \<open>origin\<close>
  is \<^verbatim>\<open>window.location.origin\<close>, \<open>now\<close> is \<^verbatim>\<open>Date.now()\<close> and \<open>ls\<close> is the storage.
  The result is the storage after \<^verbatim>\<open>setItem\<close> and the URL given to
  \<^verbatim>\<open>window.location.assign\<close>.
\<close>

definition handleNkLoginRequest ::
  "(nat \<Rightarrow> nat) \<Rightarrow> string \<Rightarrow> int \<Rightarrow> jsval \<Rightarrow> storage \<Rightarrow> storage \<times> string" where
  "handleNkLoginRequest random origin now state ls =
     (let id = nanoid 15 random;
          sessionData = VObj [(''state'', state), (''expiresOn'', VNum (now + 60 * 1000))];
          ls' = setItem ls id (to_item (JSON_stringify sessionData));
          urlParams =
            [(''response_type'', ''code''),
             (''client_id'', ''logbook-visualizer''),
             (''redirect_uri'', origin @ NkAuthRedirectPath),
             (''scope'', ''read''),
             (''state'', id)]
      in (ls', ''https://oauth-logbook.nksports.com/oauth/authorize?''
                 @ URLSearchParams_toString urlParams))"

subsection \<open>handleNkLoginReturn\<close>

record IRedirectReturn =
  state :: "json option"
  code :: string

text \<open>
  \<^verbatim>\<open>stateBody.expiresOn > Date.now()\<close>. The left operand is what the stored text holds
  under \<^verbatim>\<open>expiresOn\<close>, which need not be a number. \<^verbatim>\<open>undefined\<close> converts to
  \<^verbatim>\<open>NaN\<close>, and every comparison with \<^verbatim>\<open>NaN\<close> is false; \<^verbatim>\<open>null\<close> converts to 0 and a
  boolean to 0 or 1. A string, an array or an object is converted by the platform
  (\<^verbatim>\<open>ToPrimitive\<close>, then \<^verbatim>\<open>ToNumber\<close>, which can throw and can give a number that is no
  integer): the outcome of the comparison for such a value is the argument \<open>coerce\<close>,
  and a theorem below holds for every \<open>coerce\<close>.
\<close>

type_synonym coercion = "json \<Rightarrow> int \<Rightarrow> error + bool"

fun greater_than :: "coercion \<Rightarrow> json option \<Rightarrow> int \<Rightarrow> error + bool" where
  "greater_than coerce None now = Inr False"
| "greater_than coerce (Some (JNum e)) now = Inr (e > now)"
| "greater_than coerce (Some JNull) now = Inr (0 > now)"
| "greater_than coerce (Some (JBool b)) now = Inr ((if b then 1 else 0) > now)"
| "greater_than coerce (Some j) now = coerce j now"

text \<open>
  \<open>search\<close> is the parsed \<^verbatim>\<open>location.search\<close>, \<open>now\<close> is \<^verbatim>\<open>Date.now()\<close>. The result
  is the value returned or the exception thrown, and the storage as it is then.
  \<^verbatim>\<open>codeParam\<close> and \<^verbatim>\<open>stateParam\<close> are the source's \<^verbatim>\<open>code\<close> and \<^verbatim>\<open>state\<close>.
\<close>

definition handleNkLoginReturn ::
  "coercion \<Rightarrow> (string \<times> string) list \<Rightarrow> int \<Rightarrow> storage
     \<Rightarrow> (error + IRedirectReturn) \<times> storage" where
  "handleNkLoginReturn coerce search now ls =
     (case (URLSearchParams_get search ''code'', URLSearchParams_get search ''state'') of
        (Some codeParam, Some stateParam) \<Rightarrow>
          let stateBodyString = getItem ls stateParam in
          (case CleanupLocalStorage ls of
             (Inl e, ls') \<Rightarrow> (Inl e, ls')
           | (Inr _, ls') \<Rightarrow>
               (case stateBodyString of
                  None \<Rightarrow> (Inl UnknownOrExpiredToken, ls')
                | Some text \<Rightarrow>
                    (case JSON_parse text of
                       Inl e \<Rightarrow> (Inl e, ls')
                     | Inr stateBody \<Rightarrow>
                         (case get_property stateBody ''expiresOn'' of
                            Inl e \<Rightarrow> (Inl e, ls')
                          | Inr expiresOn \<Rightarrow>
                              (case greater_than coerce expiresOn now of
                                 Inl e \<Rightarrow> (Inl e, ls')
                               | Inr True \<Rightarrow> (Inl HandshakeExpired, ls')
                               | Inr False \<Rightarrow>
                                   (case get_property stateBody ''state'' of
                                      Inl e \<Rightarrow> (Inl e, ls')
                                    | Inr s \<Rightarrow>
                                        (Inr \<lparr>state = s, code = codeParam\<rparr>, ls')))))))
      | _ \<Rightarrow>
          (case CleanupLocalStorage ls of
             (Inl e, ls') \<Rightarrow> (Inl e, ls')
           | (Inr _, ls') \<Rightarrow> (Inl MissingParameters, ls')))"

subsection \<open>The shape of a pending handshake\<close>

text \<open>
  The specification calls a stored value a pending handshake when, after parsing, both
  \<^verbatim>\<open>state\<close> and \<^verbatim>\<open>expiresOn\<close> are present. \<open>PendingHandshake\<close> says so of a stored
  string. \<open>readable\<close> holds of a stored string that is a JSON text other than
  \<^verbatim>\<open>null\<close>: the strings on which neither \<^verbatim>\<open>JSON.parse\<close> nor the property reads of
  \<^verbatim>\<open>isRedirectData\<close> throw.
\<close>

definition has_field :: "json \<Rightarrow> string \<Rightarrow> bool" where
  "has_field j name = (case j of JObj members \<Rightarrow> name \<in> set (map fst members) | _ \<Rightarrow> False)"

definition PendingHandshake :: "item \<Rightarrow> bool" where
  "PendingHandshake t =
     (case t of
        JsonText j \<Rightarrow> has_field j ''state'' \<and> has_field j ''expiresOn''
      | PlainText s \<Rightarrow> False)"

definition readable :: "item \<Rightarrow> bool" where
  "readable t = (case t of JsonText j \<Rightarrow> j \<noteq> JNull | PlainText s \<Rightarrow> False)"

text \<open>
  The sweep as a recursion over the entries; \<open>CleanupLocalStorage_sweep\<close> below proves
  that the loop of the source computes it.
\<close>

fun sweep :: "storage \<Rightarrow> (error + unit) \<times> storage" where
  "sweep [] = (Inr (), [])"
| "sweep (entry # rest) =
     (case JSON_parse (snd entry) of
        Inl e \<Rightarrow> (Inl e, entry # rest)
      | Inr storageItem \<Rightarrow>
          (case isRedirectData storageItem of
             Inl e \<Rightarrow> (Inl e, entry # rest)
           | Inr True \<Rightarrow> sweep rest
           | Inr False \<Rightarrow> (fst (sweep rest), entry # snd (sweep rest))))"

text \<open>
  A value is \<open>plain\<close> when neither it nor any value inside it is \<^verbatim>\<open>undefined\<close> or a
  function: the values that \<^verbatim>\<open>JSON.stringify\<close> writes in full.
\<close>

fun plain :: "jsval \<Rightarrow> bool" where
  "plain VUndefined = False"
| "plain VFunction = False"
| "plain (VArr vs) = list_all plain vs"
| "plain (VObj ms) = list_all (\<lambda>m. plain (snd m)) ms"
| "plain _ = True"

section \<open>Properties\<close>

subsection \<open>The loop of CleanupLocalStorage\<close>

lemma getItem_at:
  assumes "distinct (map fst (pre @ entry # rest))"
  shows "getItem (pre @ entry # rest) (fst entry) = Some (snd entry)"
proof -
  from assms have "fst entry \<notin> fst ` set pre" by auto
  then have "map_of pre (fst entry) = None" by (simp add: map_of_eq_None_iff)
  then show ?thesis by (simp add: getItem_def map_add_def)
qed

lemma key_at: "key (pre @ entry # rest) (int (length pre)) = Some (fst entry)"
  by (simp add: key_def)

lemma removeItem_at:
  assumes "distinct (map fst (pre @ entry # rest))"
  shows "removeItem (pre @ entry # rest) (fst entry) = pre @ rest"
proof -
  from assms have "fst entry \<notin> fst ` set pre" and "fst entry \<notin> fst ` set rest"
    by auto
  then have "filter (\<lambda>x. fst x \<noteq> fst entry) pre = pre"
    and "filter (\<lambda>x. fst x \<noteq> fst entry) rest = rest"
    by (auto simp: filter_id_conv image_iff)
  then show ?thesis by (simp add: removeItem_def)
qed

lemma cleanup_loop_sweep:
  "distinct (map fst (pre @ suf)) \<Longrightarrow>
     cleanup_loop (int (length pre)) (pre @ suf) = (fst (sweep suf), pre @ snd (sweep suf))"
proof (induction suf arbitrary: pre)
  case Nil
  show ?case by (subst cleanup_loop.simps) simp
next
  case (Cons entry rest)
  have k: "key_string (key (pre @ entry # rest) (int (length pre))) = fst entry"
    by (simp add: key_at key_string_def)
  have g: "getItem (pre @ entry # rest) (fst entry) = Some (snd entry)"
    using Cons.prems by (rule getItem_at)
  have r: "removeItem (pre @ entry # rest) (fst entry) = pre @ rest"
    using Cons.prems by (rule removeItem_at)
  from Cons.prems have d1: "distinct (map fst (pre @ rest))" by simp
  from Cons.prems have d2: "distinct (map fst ((pre @ [entry]) @ rest))" by simp
  have ih1: "cleanup_loop (int (length pre)) (pre @ rest)
               = (fst (sweep rest), pre @ snd (sweep rest))"
    using Cons.IH [OF d1] .
  have ih2: "cleanup_loop (int (length pre) + 1) (pre @ entry # rest)
               = (fst (sweep rest), pre @ entry # snd (sweep rest))"
    using Cons.IH [OF d2] by (simp add: add.commute)
  show ?case
    by (subst cleanup_loop.simps)
       (simp add: k g r ih1 ih2 JSON_parse_nullable_def split: sum.splits bool.splits)
qed

lemma CleanupLocalStorage_sweep:
  "wf_storage ls \<Longrightarrow> CleanupLocalStorage ls = sweep ls"
  using cleanup_loop_sweep [of "[]" ls]
  by (simp add: CleanupLocalStorage_def wf_storage_def)

lemma isRedirectData_readable:
  "j \<noteq> JNull \<Longrightarrow> isRedirectData j = Inr (has_field j ''state'' \<and> has_field j ''expiresOn'')"
  by (cases j) (auto simp: isRedirectData_def has_field_def map_of_eq_None_iff)

lemma sweep_readable:
  "list_all (\<lambda>entry. readable (snd entry)) ls \<Longrightarrow>
     sweep ls = (Inr (), filter (\<lambda>entry. \<not> PendingHandshake (snd entry)) ls)"
proof (induction ls)
  case Nil
  show ?case by simp
next
  case (Cons entry rest)
  then obtain j where j: "snd entry = JsonText j" "j \<noteq> JNull"
    by (cases "snd entry") (auto simp: readable_def)
  with Cons show ?case
    by (simp add: JSON_parse_def isRedirectData_readable PendingHandshake_def readable_def
             split: bool.splits)
qed


lemma CleanupLocalStorage_readable:
  "wf_storage ls \<Longrightarrow> list_all (\<lambda>entry. readable (snd entry)) ls \<Longrightarrow>
     CleanupLocalStorage ls = (Inr (), filter (\<lambda>entry. \<not> PendingHandshake (snd entry)) ls)"
  by (simp add: CleanupLocalStorage_sweep sweep_readable)


subsection \<open>handleNkLoginReturn and the sweep\<close>

lemma handleNkLoginReturn_record:
  assumes "wf_storage ls" and "list_all (\<lambda>entry. readable (snd entry)) ls"
    and "URLSearchParams_get search ''code'' = Some c"
    and "URLSearchParams_get search ''state'' = Some token"
    and "getItem ls token = Some (JsonText (JObj members))"
    and "map_of members ''expiresOn'' = Some (JNum expiresOn)"
  shows "handleNkLoginReturn coerce search now ls
           = (if expiresOn > now then Inl HandshakeExpired
              else Inr \<lparr>state = map_of members ''state'', code = c\<rparr>,
              filter (\<lambda>entry. \<not> PendingHandshake (snd entry)) ls)"
  using assms(3-6)
  by (simp add: handleNkLoginReturn_def CleanupLocalStorage_readable [OF assms(1,2)]
        JSON_parse_def)

subsection \<open>setItem and the record that handleNkLoginRequest stores\<close>

lemma getItem_setItem: "getItem (setItem ls k v) k = Some v"
  by (induction ls) (auto simp: getItem_def)

lemma keys_setItem: "fst ` set (setItem ls k v) = insert k (fst ` set ls)"
  by (induction ls k v rule: setItem.induct) (simp_all add: insert_commute)

lemma wf_storage_setItem: "wf_storage ls \<Longrightarrow> wf_storage (setItem ls k v)"
  unfolding wf_storage_def
proof (induction ls)
  case Nil
  show ?case by simp
next
  case (Cons entry rest)
  then show ?case
    using keys_setItem [of rest k v] by (cases entry) auto
qed

lemma readable_setItem:
  "list_all (\<lambda>entry. readable (snd entry)) ls \<Longrightarrow> readable v \<Longrightarrow>
     list_all (\<lambda>entry. readable (snd entry)) (setItem ls k v)"
  by (induction ls) auto

lemma handleNkLoginRequest_storage:
  "fst (handleNkLoginRequest random origin now S ls)
     = setItem ls (nanoid 15 random)
         (JsonText (JObj (object_member (''state'', serialize S)
                          @ [(''expiresOn'', JNum (now + 60000))])))"
  by (simp add: handleNkLoginRequest_def JSON_stringify_def to_item_def object_member_def
        Let_def)

lemma sessionData_expiresOn:
  "map_of (object_member (''state'', x) @ [(''expiresOn'', e)]) ''expiresOn'' = Some e"
  by (simp add: object_member_def split: option.splits)

lemma sessionData_state:
  "map_of (object_member (''state'', x) @ [(''expiresOn'', e)]) ''state'' = x"
  by (simp add: object_member_def split: option.splits)

subsection \<open>JSON.stringify followed by JSON.parse\<close>

lemma plain_of_json: "plain (of_json j)"
  by (induction j) (auto simp: list_all_iff)

lemma concat_map_single: "(\<And>x. x \<in> set xs \<Longrightarrow> f x = [x]) \<Longrightarrow> concat (map f xs) = xs"
  by (induction xs) auto

lemma serialize_of_json: "serialize (of_json j) = Some j"
proof (induction j)
  case (JArr js)
  have "map (\<lambda>x. array_element (serialize (of_json x))) js = js"
    by (rule map_idI) (simp add: JArr array_element_def)
  then show ?case by (simp add: comp_def)
next
  case (JObj ms)
  have "concat (map (\<lambda>m. object_member (map_prod id serialize (map_prod id of_json m))) ms)
          = ms"
  proof (rule concat_map_single)
    fix m assume m: "m \<in> set ms"
    obtain k j where kj: "m = (k, j)" by (cases m)
    with m have "serialize (of_json j) = Some j"
      using JObj [of m j] by simp
    with kj show "object_member (map_prod id serialize (map_prod id of_json m)) = [m]"
      by (simp add: object_member_def)
  qed
  then show ?case by (simp add: comp_def)
qed simp_all

lemma of_json_serialize: "plain v \<Longrightarrow> map_option of_json (serialize v) = Some v"
proof (induction v)
  case (VArr vs)
  have "map (\<lambda>x. of_json (array_element (serialize x))) vs = vs"
  proof (rule map_idI)
    fix x assume x: "x \<in> set vs"
    with VArr.prems have "plain x" by (simp add: list_all_iff)
    with x have "map_option of_json (serialize x) = Some x" by (rule VArr.IH)
    then show "of_json (array_element (serialize x)) = x"
      by (auto simp: array_element_def)
  qed
  then show ?case by (simp add: comp_def)
next
  case (VObj ms)
  have "concat (map (\<lambda>m. map (map_prod id of_json)
                     (object_member (map_prod id serialize m))) ms) = ms"
  proof (rule concat_map_single)
    fix m assume m: "m \<in> set ms"
    obtain k x where kx: "m = (k, x)" by (cases m)
    with m VObj.prems have "plain x" by (auto simp: list_all_iff)
    with m kx have "map_option of_json (serialize x) = Some x"
      using VObj.IH [of m x] by simp
    with kx show "map (map_prod id of_json) (object_member (map_prod id serialize m)) = [m]"
      by (auto simp: object_member_def)
  qed
  then show ?case by (simp add: comp_def map_concat)
qed simp_all

lemma round_trip_fixed_point: "(map_option of_json (serialize v) = Some v) = plain v"
proof
  assume "map_option of_json (serialize v) = Some v"
  then obtain j where "of_json j = v" by auto
  then show "plain v" using plain_of_json [of j] by simp
next
  assume "plain v"
  then show "map_option of_json (serialize v) = Some v" by (rule of_json_serialize)
qed

subsection \<open>The token and the query string\<close>

lemma length_nanoid: "length (nanoid n random) = n"
  by (simp add: nanoid_def)

lemma urlAlphabet_unreserved: "list_all unreserved urlAlphabet"
  by code_simp

lemma length_urlAlphabet: "length urlAlphabet = 64"
  by code_simp

lemma nanoid_unreserved: "list_all unreserved (nanoid n random)"
proof -
  have "\<And>i. unreserved (urlAlphabet ! (random i mod 64))"
    using urlAlphabet_unreserved by (simp add: list_all_length length_urlAlphabet)
  then show ?thesis
    by (simp add: nanoid_def list_all_iff)
qed

lemma encode_unreserved: "list_all unreserved s \<Longrightarrow> encode s = s"
  by (induction s) (simp_all add: encode_def encode_char_def)

lemma encode_names:
  "encode ''response_type'' = ''response_type''"
  "encode ''code'' = ''code''"
  "encode ''client_id'' = ''client_id''"
  "encode ''logbook-visualizer'' = ''logbook-visualizer''"
  "encode ''redirect_uri'' = ''redirect_uri''"
  "encode ''scope'' = ''scope''"
  "encode ''read'' = ''read''"
  "encode ''state'' = ''state''"
  by code_simp+

lemma nanoid_example: "nanoid 15 (\<lambda>i. 7 * i) = ''um85VDLfvto97KN''"
  by code_simp

lemma encode_example:
  "encode ''https://app.example/nk-auth-redirect'' = ''https%3A%2F%2Fapp.example%2Fnk-auth-redirect''"
  by code_simp

lemma distinct_urlAlphabet: "distinct urlAlphabet"
  by code_simp

lemma urlAlphabet_nth_eq:
  "a < 64 \<Longrightarrow> b < 64 \<Longrightarrow> (urlAlphabet ! a = urlAlphabet ! b) = (a = b)"
  using distinct_urlAlphabet by (simp add: nth_eq_iff_index_eq length_urlAlphabet)

lemma nanoid_eq_iff:
  "(nanoid n random = nanoid n random') = (\<forall>i<n. random i mod 64 = random' i mod 64)"
  by (auto simp: nanoid_def urlAlphabet_nth_eq)

lemma nanoid_subset: "set (nanoid n random) \<subseteq> set urlAlphabet"
  by (auto simp: nanoid_def length_urlAlphabet)

lemma nanoid_onto:
  assumes "length t = n" and "set t \<subseteq> set urlAlphabet"
  shows "\<exists>random. nanoid n random = t"
proof -
  have "\<forall>i. \<exists>k. i < n \<longrightarrow> k < 64 \<and> urlAlphabet ! k = t ! i"
  proof
    fix i
    show "\<exists>k. i < n \<longrightarrow> k < 64 \<and> urlAlphabet ! k = t ! i"
    proof (cases "i < n")
      case True
      with assms have "t ! i \<in> set urlAlphabet" by auto
      then obtain k where "k < length urlAlphabet" and "urlAlphabet ! k = t ! i"
        by (auto simp: in_set_conv_nth)
      then show ?thesis by (auto simp: length_urlAlphabet)
    next
      case False
      then show ?thesis by simp
    qed
  qed
  then have "\<exists>random. \<forall>i. i < n \<longrightarrow> random i < 64 \<and> urlAlphabet ! random i = t ! i"
    by (rule choice)
  then obtain random where r: "\<And>i. i < n \<Longrightarrow> random i < 64 \<and> urlAlphabet ! random i = t ! i"
    by blast
  have "nanoid n random = t"
  proof (rule nth_equalityI)
    show "length (nanoid n random) = length t"
      using assms(1) by (simp add: nanoid_def)
  next
    fix i assume "i < length (nanoid n random)"
    then have "i < n" by (simp add: nanoid_def)
    with r [of i] show "nanoid n random ! i = t ! i"
      by (simp add: nanoid_def)
  qed
  then show "\<exists>random. nanoid n random = t" by blast
qed

lemma nanoid_range:
  "(\<exists>random. nanoid n random = t) = (length t = n \<and> set t \<subseteq> set urlAlphabet)"
  using nanoid_onto [of t n] nanoid_subset length_nanoid by auto

subsection \<open>C1: the expiry check\<close>

text \<open>
  C1, as the code has it. When the record looked up has a number under \<^verbatim>\<open>expiresOn\<close>
  and the sweep does not throw, \<open>handleNkLoginReturn\<close> fails with \<open>HandshakeExpired\<close>
  exactly when \<^verbatim>\<open>expiresOn\<close> is strictly later than the current time, and otherwise
  returns the record's \<^verbatim>\<open>state\<close> and the code: the comparison is the reverse of the
  one the claim states.
\<close>

theorem Complete_rejects_records_that_expire_later:
  assumes "wf_storage ls" and "list_all (\<lambda>entry. readable (snd entry)) ls"
    and "URLSearchParams_get search ''code'' = Some c"
    and "URLSearchParams_get search ''state'' = Some token"
    and "getItem ls token = Some (JsonText (JObj members))"
    and "map_of members ''expiresOn'' = Some (JNum expiresOn)"
  shows "(fst (handleNkLoginReturn coerce search now ls) = Inl HandshakeExpired)
           = (now < expiresOn)
         \<and> (fst (handleNkLoginReturn coerce search now ls)
              = Inr \<lparr>state = map_of members ''state'', code = c\<rparr>)
           = (expiresOn \<le> now)"
  by (simp add: handleNkLoginReturn_record [OF assms])

theorem Complete_rejects_records_that_expire_later_witness:
  "\<forall>coerce.
     fst (handleNkLoginReturn coerce [(''code'', ''abc''), (''state'', ''um85VDLfvto97KN'')] 1000
       [(''um85VDLfvto97KN'',
           JsonText (JObj [(''state'', JObj [(''page'', JStr ''home'')]),
                           (''expiresOn'', JNum 2000)]))])
       = Inl HandshakeExpired
   \<and> fst (handleNkLoginReturn coerce [(''code'', ''abc''), (''state'', ''um85VDLfvto97KN'')] 1000
       [(''um85VDLfvto97KN'',
           JsonText (JObj [(''state'', JObj [(''page'', JStr ''home'')]),
                           (''expiresOn'', JNum 999)]))])
       = Inr \<lparr>state = Some (JObj [(''page'', JStr ''home'')]), code = ''abc''\<rparr>"
proof (rule allI)
  fix coerce :: coercion
  let ?search = "[(''code'', ''abc''), (''state'', ''um85VDLfvto97KN'')]"
  let ?fresh = "[(''state'', JObj [(''page'', JStr ''home'')]), (''expiresOn'', JNum 2000)]"
  let ?stale = "[(''state'', JObj [(''page'', JStr ''home'')]), (''expiresOn'', JNum 999)]"
  have c: "URLSearchParams_get ?search ''code'' = Some ''abc''"
    and s: "URLSearchParams_get ?search ''state'' = Some ''um85VDLfvto97KN''"
    by (simp_all add: URLSearchParams_get_def)
  have fresh: "fst (handleNkLoginReturn coerce ?search 1000
                 [(''um85VDLfvto97KN'', JsonText (JObj ?fresh))]) = Inl HandshakeExpired"
    using Complete_rejects_records_that_expire_later
      [of "[(''um85VDLfvto97KN'', JsonText (JObj ?fresh))]" ?search "''abc''"
          "''um85VDLfvto97KN''" ?fresh 2000 coerce 1000] c s
    by (simp add: wf_storage_def readable_def getItem_def)
  have stale: "fst (handleNkLoginReturn coerce ?search 1000
                 [(''um85VDLfvto97KN'', JsonText (JObj ?stale))])
               = Inr \<lparr>state = Some (JObj [(''page'', JStr ''home'')]), code = ''abc''\<rparr>"
    using Complete_rejects_records_that_expire_later
      [of "[(''um85VDLfvto97KN'', JsonText (JObj ?stale))]" ?search "''abc''"
          "''um85VDLfvto97KN''" ?stale 999 coerce 1000] c s
    by (simp add: wf_storage_def readable_def getItem_def)
  from fresh stale
  show "fst (handleNkLoginReturn coerce ?search 1000
               [(''um85VDLfvto97KN'', JsonText (JObj ?fresh))]) = Inl HandshakeExpired
      \<and> fst (handleNkLoginReturn coerce ?search 1000
               [(''um85VDLfvto97KN'', JsonText (JObj ?stale))])
          = Inr \<lparr>state = Some (JObj [(''page'', JStr ''home'')]), code = ''abc''\<rparr>"
    by simp
qed

subsection \<open>C2: Initiate, then Complete at once\<close>

text \<open>
  C2, as the code has it. After \<open>handleNkLoginRequest\<close> at the time \<open>now\<close>, a
  \<open>handleNkLoginReturn\<close> with the issued token and any code, at a time \<open>now'\<close> before
  \<open>now + 60000\<close>, does not return the state and the code: it fails with
  \<open>HandshakeExpired\<close>, for every application state, whenever the sweep does not throw.
  The record stored has \<^verbatim>\<open>expiresOn = now + 60000\<close>, which is later than \<open>now'\<close>, and
  that is what the comparison of the source rejects.
\<close>

theorem round_trip_within_the_window_is_rejected:
  assumes "wf_storage ls" and "list_all (\<lambda>entry. readable (snd entry)) ls"
    and "URLSearchParams_get search ''code'' = Some c"
    and "URLSearchParams_get search ''state'' = Some (nanoid 15 random)"
    and "now' < now + 60000"
  shows "fst (handleNkLoginReturn coerce search now'
                (fst (handleNkLoginRequest random origin now S ls)))
           = Inl HandshakeExpired"
proof -
  let ?members = "object_member (''state'', serialize S) @ [(''expiresOn'', JNum (now + 60000))]"
  let ?ls = "setItem ls (nanoid 15 random) (JsonText (JObj ?members))"
  have wf: "wf_storage ?ls"
    using assms(1) by (rule wf_storage_setItem)
  have r: "list_all (\<lambda>entry. readable (snd entry)) ?ls"
    using assms(2) by (rule readable_setItem) (simp add: readable_def)
  have g: "getItem ?ls (nanoid 15 random) = Some (JsonText (JObj ?members))"
    by (rule getItem_setItem)
  have e: "map_of ?members ''expiresOn'' = Some (JNum (now + 60000))"
    by (rule sessionData_expiresOn)
  from handleNkLoginReturn_record [OF wf r assms(3,4) g e, of coerce now'] assms(5)
  show ?thesis
    by (simp add: handleNkLoginRequest_storage)
qed

theorem round_trip_within_the_window_is_rejected_witness:
  "\<forall>coerce.
     fst (handleNkLoginReturn coerce
            [(''code'', ''abc''), (''state'', nanoid 15 (\<lambda>i. 7 * i))] 1000
            (fst (handleNkLoginRequest (\<lambda>i. 7 * i) ''https://app.example'' 1000
                    (VObj [(''page'', VStr ''home'')]) [])))
       = Inl HandshakeExpired"
proof (rule allI)
  fix coerce :: coercion
  let ?search = "[(''code'', ''abc''), (''state'', nanoid 15 (\<lambda>i. 7 * i))]"
  have wf: "wf_storage []" by (simp add: wf_storage_def)
  have r: "list_all (\<lambda>entry. readable (snd entry)) ([] :: storage)" by simp
  have c: "URLSearchParams_get ?search ''code'' = Some ''abc''"
    and s: "URLSearchParams_get ?search ''state'' = Some (nanoid 15 (\<lambda>i. 7 * i))"
    by (simp_all add: URLSearchParams_get_def)
  have t: "(1000::int) < 1000 + 60000" by simp
  show "fst (handleNkLoginReturn coerce ?search 1000
            (fst (handleNkLoginRequest (\<lambda>i. 7 * i) ''https://app.example'' 1000
                    (VObj [(''page'', VStr ''home'')]) [])))
       = Inl HandshakeExpired"
    using wf r c s t by (rule round_trip_within_the_window_is_rejected)
qed

subsection \<open>C3: a pending handshake left behind by Complete\<close>

text \<open>
  C3. The storage should hold no entry of the PendingHandshake shape after any attempt
  of \<open>handleNkLoginReturn\<close>. The code does not achieve it: with the entry
  \<^verbatim>\<open>theme\<close> = \<^verbatim>\<open>dark\<close>, which is no JSON text, stored before a pending handshake,
  \<^verbatim>\<open>JSON.parse\<close> throws inside \<open>CleanupLocalStorage\<close>, the attempt fails with that
  \<open>SyntaxError\<close>, and the storage is as it was, the pending handshake included.
\<close>

theorem Complete_leaves_handshake_behind:
  "\<forall>coerce.
     handleNkLoginReturn coerce [(''code'', ''abc''), (''state'', ''um85VDLfvto97KN'')] 1000
       [(''theme'', PlainText ''dark''),
        (''um85VDLfvto97KN'',
           JsonText (JObj [(''state'', JObj []), (''expiresOn'', JNum 61000)]))]
     = (Inl SyntaxError,
        [(''theme'', PlainText ''dark''),
         (''um85VDLfvto97KN'',
            JsonText (JObj [(''state'', JObj []), (''expiresOn'', JNum 61000)]))])
   \<and> PendingHandshake (JsonText (JObj [(''state'', JObj []), (''expiresOn'', JNum 61000)]))"
  by (rule allI) code_simp

subsection \<open>C4: missing parameters\<close>

text \<open>
  C4. With a query string that lacks \<^verbatim>\<open>code\<close>, \<open>handleNkLoginReturn\<close> should sweep
  the storage and fail with \<open>MissingParameters\<close>. The code does not, on the storage
  with the entry \<^verbatim>\<open>theme\<close> = \<^verbatim>\<open>dark\<close> before a pending handshake: the sweep throws
  \<open>SyntaxError\<close> at the first entry, the throw of \<open>MissingParameters\<close> is not reached,
  and the pending handshake stays in the storage.
\<close>

theorem Complete_without_code_throws_SyntaxError:
  "\<forall>coerce.
     handleNkLoginReturn coerce [(''state'', ''um85VDLfvto97KN'')] 1000
       [(''theme'', PlainText ''dark''),
        (''um85VDLfvto97KN'',
           JsonText (JObj [(''state'', JObj []), (''expiresOn'', JNum 61000)]))]
     = (Inl SyntaxError,
        [(''theme'', PlainText ''dark''),
         (''um85VDLfvto97KN'',
            JsonText (JObj [(''state'', JObj []), (''expiresOn'', JNum 61000)]))])"
  by (rule allI) code_simp

subsection \<open>C5: an unknown token\<close>

text \<open>
  C5. With \<^verbatim>\<open>code\<close> and \<^verbatim>\<open>state\<close> present and no entry stored under the value of
  \<^verbatim>\<open>state\<close>, \<open>handleNkLoginReturn\<close> should fail with \<open>UnknownOrExpiredToken\<close>. The
  code does not, on the storage whose only entry is \<^verbatim>\<open>theme\<close> = \<^verbatim>\<open>dark\<close>: the sweep,
  which runs between the lookup and the test of its result, throws \<open>SyntaxError\<close>,
  and the throw of \<open>UnknownOrExpiredToken\<close> is not reached.
\<close>

theorem Complete_with_unknown_token_throws_SyntaxError:
  "\<forall>coerce.
     handleNkLoginReturn coerce [(''code'', ''abc''), (''state'', ''V1StGXR8_Z5jdHi'')] 1000
       [(''theme'', PlainText ''dark'')]
     = (Inl SyntaxError, [(''theme'', PlainText ''dark'')])"
  by (rule allI) code_simp

subsection \<open>C6: Cleanup on entries that are no JSON text\<close>

text \<open>
  C6. \<open>CleanupLocalStorage\<close> should leave alone an entry that does not parse as a
  pending handshake, and never throw. The code throws: \<open>SyntaxError\<close> on the entry
  \<^verbatim>\<open>theme\<close> = \<^verbatim>\<open>dark\<close>, where \<^verbatim>\<open>JSON.parse\<close> is called on a string that is no JSON
  text, and \<open>TypeError\<close> on the entry \<^verbatim>\<open>draft\<close> = \<^verbatim>\<open>null\<close>, where \<open>isRedirectData\<close>
  reads a property of \<^verbatim>\<open>null\<close>.
\<close>

theorem Cleanup_throws_on_plain_text:
  "CleanupLocalStorage [(''theme'', PlainText ''dark'')]
     = (Inl SyntaxError, [(''theme'', PlainText ''dark'')])
   \<and> CleanupLocalStorage [(''draft'', JsonText JNull)]
     = (Inl TypeError, [(''draft'', JsonText JNull)])"
  by code_simp

subsection \<open>C7: a pending handshake left behind by Cleanup\<close>

text \<open>
  C7. \<open>CleanupLocalStorage\<close> should remove every entry of the PendingHandshake shape
  and keep the others: of one unrelated entry and one expired handshake, only the
  unrelated entry should stay. The code does not achieve it when the unrelated entry
  is \<^verbatim>\<open>theme\<close> = \<^verbatim>\<open>dark\<close> and is stored first: the loop throws \<open>SyntaxError\<close> at that
  entry and the expired handshake stays in the storage.
\<close>

theorem Cleanup_leaves_handshake_behind:
  "PendingHandshake (JsonText (JObj [(''state'', JObj []), (''expiresOn'', JNum 5)]))
   \<and> CleanupLocalStorage
     [(''theme'', PlainText ''dark''),
      (''um85VDLfvto97KN'', JsonText (JObj [(''state'', JObj []), (''expiresOn'', JNum 5)]))]
   = (Inl SyntaxError,
     [(''theme'', PlainText ''dark''),
      (''um85VDLfvto97KN'', JsonText (JObj [(''state'', JObj []), (''expiresOn'', JNum 5)]))])"
  by code_simp

subsection \<open>C8: what Initiate stores and where it navigates\<close>

text \<open>
  C8. For every application state \<open>S\<close>, \<open>handleNkLoginRequest\<close> generates a token of 15
  symbols from the bytes of \<^verbatim>\<open>crypto.getRandomValues\<close>: the token is a new one whenever
  the low six bits of one of the 15 bytes drawn are new (two draws give the same token
  exactly when they agree in those bits), and every string of 15 symbols of the
  alphabet is the token of some draw. It stores under that token the JSON text of the
  record with \<^verbatim>\<open>state\<close> \<open>S\<close> and \<^verbatim>\<open>expiresOn = now + 60000\<close>, and navigates to the
  authorization URL of the provider with the query parameters \<^verbatim>\<open>response_type=code\<close>,
  \<^verbatim>\<open>client_id=logbook-visualizer\<close>, \<^verbatim>\<open>redirect_uri\<close> the origin followed by
  \<^verbatim>\<open>/nk-auth-redirect\<close>, \<^verbatim>\<open>scope=read\<close> and \<^verbatim>\<open>state\<close> the token, in this order and no
  other.
\<close>

theorem Initiate_stores_the_record_and_navigates:
  "let token = nanoid 15 random;
       sessionData = VObj [(''state'', S), (''expiresOn'', VNum (now + 60000))];
       stored = to_item (JSON_stringify sessionData)
   in length token = 15
      \<and> set token \<subseteq> set urlAlphabet
      \<and> (token = nanoid 15 random') = (\<forall>i<15. random i mod 64 = random' i mod 64)
      \<and> (\<exists>r. nanoid 15 r = t) = (length t = 15 \<and> set t \<subseteq> set urlAlphabet)
      \<and> JSON_parse stored
          = Inr (JObj (object_member (''state'', serialize S)
                       @ [(''expiresOn'', JNum (now + 60000))]))
      \<and> handleNkLoginRequest random origin now S ls
          = (setItem ls token stored,
             ''https://oauth-logbook.nksports.com/oauth/authorize''
             @ ''?response_type=code''
             @ ''&client_id=logbook-visualizer''
             @ ''&redirect_uri='' @ encode (origin @ ''/nk-auth-redirect'')
             @ ''&scope=read''
             @ ''&state='' @ token)
      \<and> getItem (setItem ls token stored) token = Some stored"
proof -
  have fresh: "(nanoid 15 random = nanoid 15 random')
                 = (\<forall>i<15. random i mod 64 = random' i mod 64)"
    by (rule nanoid_eq_iff)
  have range: "(\<exists>r. nanoid 15 r = t) = (length t = 15 \<and> set t \<subseteq> set urlAlphabet)"
    by (rule nanoid_range)
  have rest: "length (nanoid 15 random) = 15
      \<and> set (nanoid 15 random) \<subseteq> set urlAlphabet
      \<and> JSON_parse (to_item (JSON_stringify
            (VObj [(''state'', S), (''expiresOn'', VNum (now + 60000))])))
          = Inr (JObj (object_member (''state'', serialize S)
                       @ [(''expiresOn'', JNum (now + 60000))]))
      \<and> handleNkLoginRequest random origin now S ls
          = (setItem ls (nanoid 15 random) (to_item (JSON_stringify
                (VObj [(''state'', S), (''expiresOn'', VNum (now + 60000))]))),
             ''https://oauth-logbook.nksports.com/oauth/authorize''
             @ ''?response_type=code''
             @ ''&client_id=logbook-visualizer''
             @ ''&redirect_uri='' @ encode (origin @ ''/nk-auth-redirect'')
             @ ''&scope=read''
             @ ''&state='' @ nanoid 15 random)
      \<and> getItem (setItem ls (nanoid 15 random) (to_item (JSON_stringify
                (VObj [(''state'', S), (''expiresOn'', VNum (now + 60000))]))))
            (nanoid 15 random)
          = Some (to_item (JSON_stringify
                (VObj [(''state'', S), (''expiresOn'', VNum (now + 60000))])))"
    using nanoid_subset [of 15 random]
    by (simp add: length_nanoid handleNkLoginRequest_def NkAuthRedirectPath_def
          encode_names encode_unreserved [OF nanoid_unreserved] getItem_setItem
          JSON_stringify_def to_item_def JSON_parse_def object_member_def Let_def)
  from fresh range rest show ?thesis
    unfolding Let_def by blast
qed

theorem Initiate_stores_the_record_and_navigates_witness:
  "handleNkLoginRequest (\<lambda>i. 7 * i) ''https://app.example'' 1000
     (VObj [(''page'', VStr ''home'')]) []
   = ([(''um85VDLfvto97KN'',
        JsonText (JObj [(''state'', JObj [(''page'', JStr ''home'')]),
                        (''expiresOn'', JNum 61000)]))],
      ''https://oauth-logbook.nksports.com/oauth/authorize?response_type=code&client_id=logbook-visualizer&redirect_uri=https%3A%2F%2Fapp.example%2Fnk-auth-redirect&scope=read&state=um85VDLfvto97KN'')
   \<and> nanoid 15 (\<lambda>i. 7 * i) \<noteq> nanoid 15 (\<lambda>i. 7 * i + 1)
   \<and> (\<exists>r. nanoid 15 r = ''V1StGXR8_Z5jdHi'')"
proof -
  have d: "\<not> (\<forall>i<15. (7 * i) mod 64 = (7 * i + 1) mod (64::nat))"
    by (auto intro: exI [of _ 0])
  have t: "length ''V1StGXR8_Z5jdHi'' = 15 \<and> set ''V1StGXR8_Z5jdHi'' \<subseteq> set urlAlphabet"
    by code_simp
  from Initiate_stores_the_record_and_navigates
    [where random = "\<lambda>i. 7 * i" and random' = "\<lambda>i. 7 * i + 1"
       and S = "VObj [(''page'', VStr ''home'')]" and now = 1000
       and origin = "''https://app.example''" and ls = "[]" and t = "''V1StGXR8_Z5jdHi''"]
    d t
  show ?thesis
    by (simp add: Let_def nanoid_example encode_example JSON_stringify_def to_item_def
          object_member_def)
qed

subsection \<open>C9: the state returned is the JSON round trip\<close>

text \<open>
  C9. When \<open>handleNkLoginReturn\<close> returns after \<open>handleNkLoginRequest\<close> with the
  application state \<open>S\<close>, the state it returns is \<^verbatim>\<open>JSON.parse(JSON.stringify(S))\<close> and the
  code is the one of the query string. Read as a value of the program, the state
  returned is \<open>S\<close> itself exactly when \<open>S\<close> is plain, that is, when nothing in \<open>S\<close> is
  \<^verbatim>\<open>undefined\<close> or a function.
\<close>

theorem returned_state_is_the_JSON_round_trip:
  assumes "URLSearchParams_get search ''code'' = Some c"
    and "URLSearchParams_get search ''state'' = Some (nanoid 15 random)"
    and "handleNkLoginReturn coerce search now'
           (fst (handleNkLoginRequest random origin now S ls)) = (Inr r, ls')"
  shows "map_option Inr (state r) = map_option JSON_parse (JSON_stringify S)
         \<and> code r = c
         \<and> (map_option of_json (state r) = Some S) = plain S"
proof -
  let ?members = "object_member (''state'', serialize S) @ [(''expiresOn'', JNum (now + 60000))]"
  have g: "getItem (fst (handleNkLoginRequest random origin now S ls)) (nanoid 15 random)
             = Some (JsonText (JObj ?members))"
    by (simp add: handleNkLoginRequest_storage getItem_setItem)
  from assms(3) have r: "state r = serialize S \<and> code r = c"
    by (auto simp: handleNkLoginReturn_def assms(1,2) g JSON_parse_def
          sessionData_expiresOn sessionData_state
          simp del: map_of_append
          split: prod.splits sum.splits bool.splits)
  have "map_option JSON_parse (JSON_stringify S) = map_option Inr (serialize S)"
    by (cases "serialize S") (simp_all add: JSON_stringify_def JSON_parse_def)
  moreover have "(map_option of_json (serialize S) = Some S) = plain S"
    by (rule round_trip_fixed_point)
  ultimately show ?thesis
    using r by metis
qed

theorem returned_state_is_the_JSON_round_trip_witness:
  "\<forall>coerce.
     handleNkLoginReturn coerce
       [(''code'', ''abc''), (''state'', nanoid 15 (\<lambda>i. 7 * i))] 61000
       (fst (handleNkLoginRequest (\<lambda>i. 7 * i) ''https://app.example'' 1000
          (VObj [(''page'', VStr ''home''), (''callback'', VFunction),
                 (''draft'', VUndefined)]) []))
     = (Inr \<lparr>state = Some (JObj [(''page'', JStr ''home'')]), code = ''abc''\<rparr>, [])
   \<and> map_option JSON_parse (JSON_stringify
          (VObj [(''page'', VStr ''home''), (''callback'', VFunction),
                 (''draft'', VUndefined)]))
     = Some (Inr (JObj [(''page'', JStr ''home'')]))
   \<and> of_json (JObj [(''page'', JStr ''home'')])
     \<noteq> VObj [(''page'', VStr ''home''), (''callback'', VFunction), (''draft'', VUndefined)]"
proof (rule allI)
  fix coerce :: coercion
  let ?search = "[(''code'', ''abc''), (''state'', nanoid 15 (\<lambda>i. 7 * i))]"
  let ?S = "VObj [(''page'', VStr ''home''), (''callback'', VFunction), (''draft'', VUndefined)]"
  let ?r = "\<lparr>state = Some (JObj [(''page'', JStr ''home'')]), code = ''abc''\<rparr>"
  have c: "URLSearchParams_get ?search ''code'' = Some ''abc''"
    and s: "URLSearchParams_get ?search ''state'' = Some (nanoid 15 (\<lambda>i. 7 * i))"
    by (simp_all add: URLSearchParams_get_def)
  have run: "handleNkLoginReturn coerce ?search 61000
       (fst (handleNkLoginRequest (\<lambda>i. 7 * i) ''https://app.example'' 1000 ?S []))
     = (Inr ?r, [])"
    by code_simp
  from returned_state_is_the_JSON_round_trip [OF c s run] run
  show "handleNkLoginReturn coerce ?search 61000
       (fst (handleNkLoginRequest (\<lambda>i. 7 * i) ''https://app.example'' 1000 ?S []))
     = (Inr ?r, [])
   \<and> map_option JSON_parse (JSON_stringify ?S) = Some (Inr (JObj [(''page'', JStr ''home'')]))
   \<and> of_json (JObj [(''page'', JStr ''home'')]) \<noteq> ?S"
    by simp
qed

subsection \<open>C10: a second Complete\<close>

text \<open>
  C10. A second \<open>handleNkLoginReturn\<close> with the same query string should fail with
  \<open>UnknownOrExpiredToken\<close>. The code does not, when \<^verbatim>\<open>state\<close> in the query string is
  the key of an entry that is no pending handshake, here \<^verbatim>\<open>settings\<close>: the first
  attempt reads the entry, the sweep keeps it, and the attempt returns with
  \<^verbatim>\<open>state\<close> \<^verbatim>\<open>undefined\<close>; the second attempt finds the entry again and returns the
  same.
\<close>

theorem second_Complete_reads_unrelated_entry_again:
  "\<forall>coerce.
     handleNkLoginReturn coerce [(''code'', ''abc''), (''state'', ''settings'')] 1000
       [(''settings'', JsonText (JObj [(''theme'', JStr ''dark'')]))]
     = (Inr \<lparr>state = None, code = ''abc''\<rparr>,
        [(''settings'', JsonText (JObj [(''theme'', JStr ''dark'')]))])
   \<and> handleNkLoginReturn coerce [(''code'', ''abc''), (''state'', ''settings'')] 1001
       (snd (handleNkLoginReturn coerce [(''code'', ''abc''), (''state'', ''settings'')] 1000
               [(''settings'', JsonText (JObj [(''theme'', JStr ''dark'')]))]))
     = (Inr \<lparr>state = None, code = ''abc''\<rparr>,
        [(''settings'', JsonText (JObj [(''theme'', JStr ''dark'')]))])"
  by (rule allI) code_simp

end
